theory Spec2Isabelle
  imports Complex_Main "HOL-Library.Word"
begin

section \<open>Data model of \<^verbatim>\<open>ext/qt/qtitem.cc\<close>\<close>

text \<open>
  \<^verbatim>\<open>gint\<close> and \<^verbatim>\<open>guint\<close> are 32-bit machine integers; both are kept as the bit
  pattern (\<open>32 word\<close>), read signed with \<open>sint\<close> and unsigned with \<open>unat\<close>.
  An implicit conversion between them keeps the bits. \<^verbatim>\<open>guint64\<close> is \<open>64 word\<close>;
  a \<^verbatim>\<open>gint\<close> passed where a \<^verbatim>\<open>guint64\<close> is expected is sign-extended (\<open>scast\<close>), a
  \<^verbatim>\<open>guint64\<close> cast to \<^verbatim>\<open>guint\<close> is truncated (\<open>ucast\<close>).
  \<^verbatim>\<open>qreal\<close> is a double; every finite double is a rational number, so the values of
  Qt geometry are taken from \<open>rat\<close>.
  Pointers to buffers and to GL objects are handles (\<open>nat\<close>); a null pointer is \<open>None\<close>.
\<close>

type_synonym gint = "32 word"
type_synonym guint = "32 word"
type_synonym guint64 = "64 word"
type_synonym qreal = rat
type_synonym GstBuffer = nat
type_synonym handle = nat

text \<open>The fields of \<^verbatim>\<open>GstVideoInfo\<close> that the file reads
  (\<^verbatim>\<open>GST_VIDEO_INFO_WIDTH\<close>, \<^verbatim>\<open>_HEIGHT\<close>, \<^verbatim>\<open>_PAR_N\<close>, \<^verbatim>\<open>_PAR_D\<close>).\<close>

record GstVideoInfo =
  info_width :: gint
  info_height :: gint
  info_par_n :: gint
  info_par_d :: gint

text \<open>\<^verbatim>\<open>GstVideoRectangle\<close> (four \<^verbatim>\<open>gint\<close>) and \<^verbatim>\<open>QRectF\<close> (four \<^verbatim>\<open>qreal\<close>).\<close>

record GstVideoRectangle =
  vr_x :: gint
  vr_y :: gint
  vr_w :: gint
  vr_h :: gint

record QRectF =
  qr_x :: qreal
  qr_y :: qreal
  qr_width :: qreal
  qr_height :: qreal

text \<open>\<^verbatim>\<open>struct _QtGLVideoItemPrivate\<close>, without the two mutexes. The type parameter
  is the library's caps object; the field \<^verbatim>\<open>context\<close> is \<open>gl_context\<close> here.\<close>

record 'c QtGLVideoItemPrivate =
  force_aspect_ratio :: bool
  par_n :: gint
  par_d :: gint
  display_width :: gint
  display_height :: gint
  negotiated :: bool
  front_buffer :: "GstBuffer option"
  back_buffer :: "GstBuffer option"
  waiting_on_render :: bool
  caps :: "'c option"
  v_info :: GstVideoInfo
  initted :: bool
  display :: "handle option"
  qt_context :: "handle option"
  other_context :: "handle option"
  gl_context :: "handle option"

text \<open>
  The calls into GStreamer that the file makes. They are library code, outside this
  repository, so the model takes them as a parameter:
  \<^item> \<^verbatim>\<open>gst_caps_is_fixed\<close>, \<^verbatim>\<open>gst_caps_is_equal_fixed\<close>;
  \<^item> \<^verbatim>\<open>gst_video_info_from_caps\<close>: \<open>None\<close> is the return value \<^verbatim>\<open>FALSE\<close>;
  \<^item> \<^verbatim>\<open>gst_video_calculate_display_ratio\<close>, arguments in the order of the C
    signature (width, height, video PAR n/d, display PAR n/d): \<open>None\<close> is \<^verbatim>\<open>FALSE\<close>,
    \<open>Some (num, den)\<close> is \<^verbatim>\<open>TRUE\<close> with the two out-parameters;
  \<^item> \<^verbatim>\<open>gst_util_uint64_scale_int (val, num, denom)\<close>.
\<close>

record 'c gstreamer =
  gst_caps_is_fixed :: "'c \<Rightarrow> bool"
  gst_caps_is_equal_fixed :: "'c \<Rightarrow> 'c \<Rightarrow> bool"
  gst_video_info_from_caps :: "'c \<Rightarrow> GstVideoInfo option"
  gst_video_calculate_display_ratio ::
    "guint \<Rightarrow> guint \<Rightarrow> guint \<Rightarrow> guint \<Rightarrow> guint \<Rightarrow> guint \<Rightarrow> (guint \<times> guint) option"
  gst_util_uint64_scale_int :: "guint64 \<Rightarrow> gint \<Rightarrow> gint \<Rightarrow> guint64"

section \<open>\<^verbatim>\<open>_calculate_par\<close>\<close>

text \<open>
  Lines 435-491, in two parts. \<open>scale_to_display_ratio\<close> is the second half of the
  function (lines 461-490): the call of \<^verbatim>\<open>gst_video_calculate_display_ratio\<close> and the
  three branches that follow. \<open>calculate_par\<close> is the function: it reads the video
  info, replaces a zero PAR numerator, chooses the display's PAR and goes on with the
  second half.

  The result is \<open>None\<close> where the C code divides by zero
  (\<^verbatim>\<open>height % display_ratio_den\<close> with a zero denominator, or
  \<^verbatim>\<open>width % display_ratio_num\<close> with a zero numerator once the first test has
  failed); otherwise it is the returned \<^verbatim>\<open>gboolean\<close> and the updated private struct.
  Both \<^verbatim>\<open>%\<close> are unsigned: the \<^verbatim>\<open>gint\<close> operand is converted to \<^verbatim>\<open>guint\<close>.
\<close>

definition scale_to_display_ratio ::
  "'c gstreamer \<Rightarrow> 'c QtGLVideoItemPrivate \<Rightarrow> gint \<Rightarrow> gint \<Rightarrow> gint \<Rightarrow> gint \<Rightarrow> gint \<Rightarrow> gint
     \<Rightarrow> (bool \<times> 'c QtGLVideoItemPrivate) option" where
  "scale_to_display_ratio lib priv width height par_n' par_d' display_par_n display_par_d =
    (case gst_video_calculate_display_ratio lib width height par_n' par_d'
            display_par_n display_par_d of
       None \<Rightarrow> Some (False, priv)
     | Some (display_ratio_num, display_ratio_den) \<Rightarrow>
         if display_ratio_den = 0 then None
         else if height mod display_ratio_den = 0 then
           Some (True, priv\<lparr>display_width :=
                    ucast (gst_util_uint64_scale_int lib (scast height)
                             display_ratio_num display_ratio_den),
                  display_height := height\<rparr>)
         else if display_ratio_num = 0 then None
         else if width mod display_ratio_num = 0 then
           Some (True, priv\<lparr>display_width := width,
                  display_height :=
                    ucast (gst_util_uint64_scale_int lib (scast width)
                             display_ratio_den display_ratio_num)\<rparr>)
         else
           Some (True, priv\<lparr>display_width :=
                    ucast (gst_util_uint64_scale_int lib (scast height)
                             display_ratio_num display_ratio_den),
                  display_height := height\<rparr>))"

definition calculate_par ::
  "'c gstreamer \<Rightarrow> 'c QtGLVideoItemPrivate \<Rightarrow> GstVideoInfo
     \<Rightarrow> (bool \<times> 'c QtGLVideoItemPrivate) option" where
  "calculate_par lib priv info =
    (let width = info_width info;
         height = info_height info;
         par_n0 = info_par_n info;
         par_d0 = info_par_d info;
         par_n1 = (if par_n0 = 0 then 1 else par_n0);
         (display_par_n, display_par_d) =
            (if par_n priv \<noteq> 0 \<and> par_d priv \<noteq> 0 then (par_n priv, par_d priv) else (1, 1))
     in scale_to_display_ratio lib priv width height par_n1 par_d0 display_par_n display_par_d)"

section \<open>The item, the proxy and the shared state\<close>

text \<open>
  \<^verbatim>\<open>QtGLVideoItem\<close> owns the private struct through a shared pointer that may be
  null (the destructor clears it). The proxy \<^verbatim>\<open>QtGLVideoItemInterface\<close> holds the
  raw pointer \<^verbatim>\<open>qt_item\<close>, which is either null or the address of the one item.
  A \<open>system\<close> is that pointer together with the item object it can point to, so that
  the item and its shared state are still there to be looked at after the pointer has
  been cleared.
\<close>

record 'c QtGLVideoItem =
  priv :: "'c QtGLVideoItemPrivate option"
  m_openGlContextInitialized :: bool

datatype item_ptr = nullptr | this_item

record 'c system =
  qt_item :: item_ptr
  item :: "'c QtGLVideoItem"

text \<open>The constructor (lines 125-148): \<^verbatim>\<open>new QtGLVideoItemPrivate{}\<close> zeroes every
  field, then the three defaults and the display are stored and the proxy is created
  pointing at the item. The argument is what \<^verbatim>\<open>gst_qt_get_gl_display\<close> returns.\<close>

definition new_QtGLVideoItemPrivate :: "handle option \<Rightarrow> 'c QtGLVideoItemPrivate" where
  "new_QtGLVideoItemPrivate dpy =
    \<lparr>force_aspect_ratio = True, par_n = 0, par_d = 1,
     display_width = 0, display_height = 0, negotiated = False,
     front_buffer = None, back_buffer = None, waiting_on_render = False,
     caps = None,
     v_info = \<lparr>info_width = 0, info_height = 0, info_par_n = 0, info_par_d = 0\<rparr>,
     initted = False, display = dpy, qt_context = None, other_context = None,
     gl_context = None\<rparr>"

definition new_QtGLVideoItem :: "handle option \<Rightarrow> 'c system" where
  "new_QtGLVideoItem dpy =
    \<lparr>qt_item = this_item,
     item = \<lparr>priv = Some (new_QtGLVideoItemPrivate dpy),
             m_openGlContextInitialized = False\<rparr>\<rparr>"

text \<open>\<^verbatim>\<open>_reset\<close> (lines 253-264).\<close>

definition reset :: "'c QtGLVideoItemPrivate \<Rightarrow> 'c QtGLVideoItemPrivate" where
  "reset p = p\<lparr>back_buffer := None, front_buffer := None, caps := None,
               negotiated := False, initted := False, waiting_on_render := False\<rparr>"

text \<open>\<^verbatim>\<open>QtGLVideoItemInterface::invalidateRef\<close> (lines 271-281).\<close>

definition invalidateRef :: "'c system \<Rightarrow> 'c system" where
  "invalidateRef w =
    (if qt_item w \<noteq> nullptr then
       w\<lparr>item := (item w)\<lparr>priv := map_option reset (priv (item w))\<rparr>, qt_item := nullptr\<rparr>
     else w)"

section \<open>\<^verbatim>\<open>QtGLVideoItemInterface::setBuffer\<close>\<close>

text \<open>
  What a call does besides changing the shared state is returned as a list of events:
  the log lines, the \<^verbatim>\<open>QMetaObject::invokeMethod (qt_item, "update", ...)\<close> once it
  has returned, and each \<^verbatim>\<open>sleep_for (1 ms)\<close>.
\<close>

datatype event = Warning string | Error string | InvokeUpdate | Sleep_1ms

text \<open>
  Line 308 invokes \<^verbatim>\<open>update\<close> with \<^verbatim>\<open>Qt::BlockingQueuedConnection\<close>: the calling
  thread waits, with no timeout and with the proxy's mutex held, until the thread of the
  item has run \<^verbatim>\<open>update ()\<close>. The polling loop that follows runs beside the render
  thread and reads the steady clock. The model takes all three as its environment:
  \<^item> \<open>update_runs\<close> says whether the thread of the item ever runs the queued
    \<^verbatim>\<open>update ()\<close>; if it does not, the call of line 308 never returns;
  \<^item> \<open>now_start\<close> is the clock read at line 311, in nanoseconds;
  \<^item> \<open>now_after i\<close> is the clock as read at line 314 in iteration \<open>i\<close> (counted
    from 0), that is after \<open>i + 1\<close> sleeps;
  \<^item> \<open>render_thread k\<close> is what the render thread has done to the shared struct
    between the previous read of \<^verbatim>\<open>waiting_on_render\<close> and read number \<open>k\<close>; the
    loop reads the flag twice per iteration, at line 312 (read \<open>2 * i\<close>) and at
    line 314 (read \<open>2 * i + 1\<close>, after the sleep). A renderer that never paints is
    \<open>\<lambda>k p. p\<close>.
\<close>

record 'c render_env =
  update_runs :: bool
  now_start :: int
  now_after :: "nat \<Rightarrow> int"
  render_thread :: "nat \<Rightarrow> 'c QtGLVideoItemPrivate \<Rightarrow> 'c QtGLVideoItemPrivate"

definition ms :: int where
  "ms = 1000000"

text \<open>Lines 312-318. The loop may run forever (a clock that stands still, a flag that
  stays set), so it is a partial function: \<open>None\<close> is a call that never returns.\<close>

partial_function (option) wait_for_render ::
  "'c render_env \<Rightarrow> int \<Rightarrow> nat \<Rightarrow> 'c QtGLVideoItemPrivate \<Rightarrow> event list
     \<Rightarrow> ('c QtGLVideoItemPrivate \<times> event list) option" where
  "wait_for_render env until i p evs =
    (let p1 = render_thread env (2 * i) p in
     if \<not> waiting_on_render p1 then Some (p1, evs)
     else
       let p2 = render_thread env (2 * i + 1) p1 in
       if waiting_on_render p2 \<and> now_after env i > until then
         Some (p2, evs @ [Sleep_1ms, Warning ''Timed out waiting for rendering to finish''])
       else wait_for_render env until (Suc i) p2 (evs @ [Sleep_1ms]))"

declare wait_for_render.simps [code]

text \<open>Lines 283-319. \<open>None\<close> is a call that never returns: the blocking invocation of
  line 308 when the thread of the item never runs \<^verbatim>\<open>update ()\<close>, or the loop.\<close>

definition setBuffer ::
  "'c render_env \<Rightarrow> GstBuffer option \<Rightarrow> 'c system \<Rightarrow> ('c system \<times> event list) option" where
  "setBuffer env buffer w =
    (if qt_item w = nullptr then Some (w, [])
     else case priv (item w) of
       None \<Rightarrow> Some (w, [Warning ''QtGLVideoItemInterface destroyed, dropping''])
     | Some p \<Rightarrow>
         if \<not> negotiated p then
           Some (w, [Warning ''Got buffer on unnegotiated QtGLVideoItem. Dropping''])
         else
           let p1 = p\<lparr>back_buffer := buffer, waiting_on_render := True\<rparr>
           in if \<not> update_runs env then None
              else
                let until = now_start env + 100 * ms
                in (case wait_for_render env until 0 p1 [InvokeUpdate] of
                      None \<Rightarrow> None
                    | Some (p', evs) \<Rightarrow>
                        Some (w\<lparr>item := (item w)\<lparr>priv := Some p'\<rparr>\<rparr>, evs)))"

section \<open>\<^verbatim>\<open>QtGLVideoItem::updatePaintNode\<close>\<close>

text \<open>
  The scene-graph node: its rectangle, whether it owns its texture, the dirty mark, and
  what the texture of the node was last given by \<^verbatim>\<open>GstQSGTexture::setCaps\<close> and
  \<^verbatim>\<open>GstQSGTexture::setBuffer\<close>.
\<close>

record 'c QSGSimpleTextureNode =
  node_rect :: QRectF
  owns_texture :: bool
  dirty_material :: bool
  tex_caps :: "'c option"
  tex_buffer :: "GstBuffer option"

definition new_QSGSimpleTextureNode :: "'c QSGSimpleTextureNode" where
  "new_QSGSimpleTextureNode =
    \<lparr>node_rect = \<lparr>qr_x = 0, qr_y = 0, qr_width = 0, qr_height = 0\<rparr>,
     owns_texture = True, dirty_material = False, tex_caps = None, tex_buffer = None\<rparr>"

text \<open>
  The assignment of a \<^verbatim>\<open>qreal\<close> to a \<^verbatim>\<open>gint\<close> field (\<^verbatim>\<open>dst.x = boundingRect().x()\<close>,
  \<^verbatim>\<open>result.w = boundingRect().width()\<close>, ...) is the C++ conversion of a double to
  \<^verbatim>\<open>int\<close>: the fraction is dropped (rounding towards zero), and a value whose integer
  part does not fit is undefined behaviour (\<open>None\<close>). The way back, in
  \<^verbatim>\<open>QRectF (result.x, result.y, result.w, result.h)\<close>, is exact.
\<close>

definition towards_zero :: "qreal \<Rightarrow> int" where
  "towards_zero r = (if 0 \<le> r then \<lfloor>r\<rfloor> else \<lceil>r\<rceil>)"

definition gint_of_qreal :: "qreal \<Rightarrow> gint option" where
  "gint_of_qreal r =
    (let t = towards_zero r
     in if - 2147483648 \<le> t \<and> t \<le> 2147483647 then Some (word_of_int t) else None)"

definition qreal_of_gint :: "gint \<Rightarrow> qreal" where
  "qreal_of_gint g = of_int (sint g)"

definition rect_of_bounding :: "QRectF \<Rightarrow> GstVideoRectangle option" where
  "rect_of_bounding b =
    (case (gint_of_qreal (qr_x b), gint_of_qreal (qr_y b),
           gint_of_qreal (qr_width b), gint_of_qreal (qr_height b)) of
       (Some x, Some y, Some w, Some h) \<Rightarrow> Some \<lparr>vr_x = x, vr_y = y, vr_w = w, vr_h = h\<rparr>
     | _ \<Rightarrow> None)"

definition qrectf_of_rect :: "GstVideoRectangle \<Rightarrow> QRectF" where
  "qrectf_of_rect r =
    \<lparr>qr_x = qreal_of_gint (vr_x r), qr_y = qreal_of_gint (vr_y r),
     qr_width = qreal_of_gint (vr_w r), qr_height = qreal_of_gint (vr_h r)\<rparr>"

text \<open>
  Lines 193-251. Arguments: the library call
  \<^verbatim>\<open>gst_video_sink_center_rect (src, dst, &result, TRUE)\<close> (it gets the width and the
  height of \<^verbatim>\<open>src\<close>, the only fields the caller sets, and \<^verbatim>\<open>dst\<close>; \<open>None\<close> is a
  return that leaves \<^verbatim>\<open>result\<close> unwritten), the item, the value of
  \<^verbatim>\<open>boundingRect ()\<close> and \<^verbatim>\<open>oldNode\<close>. The result is the item and the returned
  node pointer (\<open>None\<close> is \<^verbatim>\<open>NULL\<close>); the outer \<open>None\<close> is undefined behaviour (a null
  \<^verbatim>\<open>priv\<close>, a conversion out of range, an unwritten \<^verbatim>\<open>result\<close>). Activating and
  releasing the GL context has no effect on the state kept here.
\<close>

definition updatePaintNode ::
  "(gint \<Rightarrow> gint \<Rightarrow> GstVideoRectangle \<Rightarrow> GstVideoRectangle option)
     \<Rightarrow> 'c QtGLVideoItem \<Rightarrow> QRectF \<Rightarrow> 'c QSGSimpleTextureNode option
     \<Rightarrow> ('c QtGLVideoItem \<times> 'c QSGSimpleTextureNode option) option" where
  "updatePaintNode gst_video_sink_center_rect it boundingRect oldNode =
    (if \<not> m_openGlContextInitialized it then Some (it, oldNode)
     else case priv it of
       None \<Rightarrow> None
     | Some p \<Rightarrow>
         if caps p = None then
           Some (it\<lparr>priv := Some (p\<lparr>waiting_on_render := False\<rparr>)\<rparr>, None)
         else
           let p1 = p\<lparr>front_buffer := back_buffer p, back_buffer := front_buffer p\<rparr>;
               texNode = (case oldNode of None \<Rightarrow> new_QSGSimpleTextureNode | Some n \<Rightarrow> n);
               texNode1 = texNode\<lparr>tex_caps := caps p1, tex_buffer := front_buffer p1,
                                  dirty_material := True\<rparr>;
               result =
                 (if force_aspect_ratio p1 then
                    (case rect_of_bounding boundingRect of
                       None \<Rightarrow> None
                     | Some dst \<Rightarrow>
                         gst_video_sink_center_rect (display_width p1) (display_height p1) dst)
                  else rect_of_bounding boundingRect)
           in (case result of
                 None \<Rightarrow> None
               | Some r \<Rightarrow>
                   Some (it\<lparr>priv := Some (p1\<lparr>waiting_on_render := False\<rparr>)\<rparr>,
                         Some (texNode1\<lparr>node_rect := qrectf_of_rect r\<rparr>))))"

section \<open>\<^verbatim>\<open>QtGLVideoItemInterface::setCaps\<close>\<close>

text \<open>
  Lines 493-523. The argument is the caps pointer (\<open>None\<close> is a null pointer, for
  which \<^verbatim>\<open>GST_IS_CAPS\<close> fails). The result is the returned \<^verbatim>\<open>gboolean\<close> and the
  system; the outer \<open>None\<close> is the division by zero of \<open>calculate_par\<close>.
\<close>

definition setCaps ::
  "'c gstreamer \<Rightarrow> 'c option \<Rightarrow> 'c system \<Rightarrow> (bool \<times> 'c system) option" where
  "setCaps lib caps_arg w =
    (case caps_arg of
       None \<Rightarrow> Some (False, w)
     | Some c \<Rightarrow>
         if \<not> gst_caps_is_fixed lib c then Some (False, w)
         else if qt_item w = nullptr then Some (False, w)
         else
          (case priv (item w) of
             None \<Rightarrow> Some (False, w)
           | Some p \<Rightarrow>
               if (case caps p of None \<Rightarrow> False | Some pc \<Rightarrow> gst_caps_is_equal_fixed lib pc c)
               then Some (True, w)
               else
                (case gst_video_info_from_caps lib c of
                   None \<Rightarrow> Some (False, w)
                 | Some info \<Rightarrow>
                     let p1 = (reset p)\<lparr>caps := Some c\<rparr>
                     in (case calculate_par lib p1 info of
                           None \<Rightarrow> None
                         | Some (ok, p2) \<Rightarrow>
                             if \<not> ok then
                               Some (False, w\<lparr>item := (item w)\<lparr>priv := Some p2\<rparr>\<rparr>)
                             else
                               Some (True, w\<lparr>item := (item w)\<lparr>priv :=
                                       Some (p2\<lparr>v_info := info, negotiated := True\<rparr>)\<rparr>\<rparr>)))))"

section \<open>The other operations of the proxy\<close>

text \<open>
  The methods of \<^verbatim>\<open>QtGLVideoItem\<close> that the proxy forwards to (lines 166-186). They
  dereference \<^verbatim>\<open>priv\<close> without a check: \<open>None\<close> is the dereference of a null
  \<^verbatim>\<open>priv\<close>. \<open>QtGLVideoItem_getDAR\<close> gives the two values written through the
  out-pointers.
\<close>

definition QtGLVideoItem_setDAR ::
  "gint \<Rightarrow> gint \<Rightarrow> 'c QtGLVideoItem \<Rightarrow> 'c QtGLVideoItem option" where
  "QtGLVideoItem_setDAR num den it =
    (case priv it of
       None \<Rightarrow> None
     | Some p \<Rightarrow> Some (it\<lparr>priv := Some (p\<lparr>par_n := num, par_d := den\<rparr>)\<rparr>))"

definition QtGLVideoItem_getDAR :: "'c QtGLVideoItem \<Rightarrow> (gint \<times> gint) option" where
  "QtGLVideoItem_getDAR it =
    (case priv it of None \<Rightarrow> None | Some p \<Rightarrow> Some (par_n p, par_d p))"

definition QtGLVideoItem_setForceAspectRatio ::
  "bool \<Rightarrow> 'c QtGLVideoItem \<Rightarrow> 'c QtGLVideoItem option" where
  "QtGLVideoItem_setForceAspectRatio far it =
    (case priv it of
       None \<Rightarrow> None
     | Some p \<Rightarrow> Some (it\<lparr>priv := Some (p\<lparr>force_aspect_ratio := far\<rparr>)\<rparr>))"

definition QtGLVideoItem_getForceAspectRatio :: "'c QtGLVideoItem \<Rightarrow> bool option" where
  "QtGLVideoItem_getForceAspectRatio it =
    (case priv it of None \<Rightarrow> None | Some p \<Rightarrow> Some (force_aspect_ratio p))"

text \<open>
  The proxy's own methods (lines 525-575). A returned pointer is a handle or \<open>None\<close>
  for \<^verbatim>\<open>NULL\<close>; the reference count that \<^verbatim>\<open>gst_object_ref\<close> raises is inside the
  library object and not part of this state. \<open>getDAR\<close> gives \<open>Some None\<close> when it
  returns without writing to its out-pointers.
\<close>

definition getQtContext :: "'c system \<Rightarrow> handle option" where
  "getQtContext w =
    (if qt_item w = nullptr then None
     else case priv (item w) of None \<Rightarrow> None | Some p \<Rightarrow> other_context p)"

definition getContext :: "'c system \<Rightarrow> handle option" where
  "getContext w =
    (if qt_item w = nullptr then None
     else case priv (item w) of None \<Rightarrow> None | Some p \<Rightarrow> gl_context p)"

definition getDisplay :: "'c system \<Rightarrow> handle option" where
  "getDisplay w =
    (if qt_item w = nullptr then None
     else case priv (item w) of None \<Rightarrow> None | Some p \<Rightarrow> display p)"

definition setDAR :: "gint \<Rightarrow> gint \<Rightarrow> 'c system \<Rightarrow> 'c system option" where
  "setDAR num den w =
    (if qt_item w \<noteq> nullptr then
       map_option (\<lambda>it. w\<lparr>item := it\<rparr>) (QtGLVideoItem_setDAR num den (item w))
     else Some w)"

definition getDAR :: "'c system \<Rightarrow> (gint \<times> gint) option option" where
  "getDAR w =
    (if qt_item w \<noteq> nullptr then map_option Some (QtGLVideoItem_getDAR (item w))
     else Some None)"

definition setForceAspectRatio :: "bool \<Rightarrow> 'c system \<Rightarrow> 'c system option" where
  "setForceAspectRatio far w =
    (if qt_item w \<noteq> nullptr then
       map_option (\<lambda>it. w\<lparr>item := it\<rparr>) (QtGLVideoItem_setForceAspectRatio far (item w))
     else Some w)"

definition getForceAspectRatio :: "'c system \<Rightarrow> bool option" where
  "getForceAspectRatio w =
    (if qt_item w = nullptr then Some False
     else QtGLVideoItem_getForceAspectRatio (item w))"

text \<open>
  \<^verbatim>\<open>initWinSys\<close> (lines 382-418) with the GL library calls it makes as a parameter:
  the type checks \<^verbatim>\<open>GST_IS_GL_DISPLAY\<close> and \<^verbatim>\<open>GST_IS_GL_CONTEXT\<close>,
  \<^verbatim>\<open>gst_gl_context_new\<close> and \<^verbatim>\<open>gst_gl_context_create\<close>.
\<close>

record gst_gl =
  gst_is_gl_display :: "handle option \<Rightarrow> bool"
  gst_is_gl_context :: "handle option \<Rightarrow> bool"
  gst_gl_context_new :: "handle option \<Rightarrow> handle option"
  gst_gl_context_create :: "handle option \<Rightarrow> handle option \<Rightarrow> bool"

definition initWinSys :: "gst_gl \<Rightarrow> 'c system \<Rightarrow> bool \<times> 'c system \<times> event list" where
  "initWinSys gl w =
    (if qt_item w = nullptr then (False, w, [])
     else
      (case priv (item w) of
         None \<Rightarrow> (False, w, [])
       | Some p \<Rightarrow>
           if display p \<noteq> None \<and> qt_context p \<noteq> None \<and> other_context p \<noteq> None
              \<and> gl_context p \<noteq> None
           then (True, w, [])
           else if \<not> gst_is_gl_display gl (display p) then
             (False, w, [Error ''failed to retrieve display connection''])
           else if \<not> gst_is_gl_context gl (other_context p) then
             (False, w, [Error ''failed to retrieve wrapped context''])
           else
             let p1 = p\<lparr>gl_context := gst_gl_context_new gl (display p)\<rparr>;
                 w1 = w\<lparr>item := (item w)\<lparr>priv := Some p1\<rparr>\<rparr>
             in if gl_context p1 = None then (False, w1, [])
                else if \<not> gst_gl_context_create gl (gl_context p1) (other_context p1) then
                  (False, w1, [Error ''error->message''])
                else (True, w1, [])))"

text \<open>
  One call of a method of the proxy, with what it returns: nothing, a \<^verbatim>\<open>gboolean\<close>,
  a pointer, or what \<open>getDAR\<close> wrote. \<open>None\<close> is a call with no defined result.
\<close>

datatype 'c proxy_op =
    SetBuffer "'c render_env" "GstBuffer option"
  | SetCaps "'c option"
  | InitWinSys
  | GetQtContext
  | GetContext
  | GetDisplay
  | SetDAR gint gint
  | GetDAR
  | SetForceAspectRatio bool
  | GetForceAspectRatio

datatype proxy_result =
    Void
  | Bool bool
  | Pointer "handle option"
  | Written "(gint \<times> gint) option"

fun proxy_call ::
  "'c gstreamer \<Rightarrow> gst_gl \<Rightarrow> 'c proxy_op \<Rightarrow> 'c system
     \<Rightarrow> ('c system \<times> proxy_result \<times> event list) option" where
  "proxy_call lib gl (SetBuffer env buffer) w =
     map_option (\<lambda>(w', evs). (w', Void, evs)) (setBuffer env buffer w)"
| "proxy_call lib gl (SetCaps c) w =
     map_option (\<lambda>(ok, w'). (w', Bool ok, [])) (setCaps lib c w)"
| "proxy_call lib gl InitWinSys w =
     (case initWinSys gl w of (ok, w', evs) \<Rightarrow> Some (w', Bool ok, evs))"
| "proxy_call lib gl GetQtContext w = Some (w, Pointer (getQtContext w), [])"
| "proxy_call lib gl GetContext w = Some (w, Pointer (getContext w), [])"
| "proxy_call lib gl GetDisplay w = Some (w, Pointer (getDisplay w), [])"
| "proxy_call lib gl (SetDAR num den) w =
     map_option (\<lambda>w'. (w', Void, [])) (setDAR num den w)"
| "proxy_call lib gl GetDAR w = map_option (\<lambda>r. (w, Written r, [])) (getDAR w)"
| "proxy_call lib gl (SetForceAspectRatio far) w =
     map_option (\<lambda>w'. (w', Void, [])) (setForceAspectRatio far w)"
| "proxy_call lib gl GetForceAspectRatio w =
     map_option (\<lambda>b. (w, Bool b, [])) (getForceAspectRatio w)"

text \<open>What each method returns when it gives up: nothing, \<^verbatim>\<open>FALSE\<close>, \<^verbatim>\<open>NULL\<close>, or
  out-pointers left alone.\<close>

fun failure_value :: "'c proxy_op \<Rightarrow> proxy_result" where
  "failure_value (SetBuffer env buffer) = Void"
| "failure_value (SetCaps c) = Bool False"
| "failure_value InitWinSys = Bool False"
| "failure_value GetQtContext = Pointer None"
| "failure_value GetContext = Pointer None"
| "failure_value GetDisplay = Pointer None"
| "failure_value (SetDAR num den) = Void"
| "failure_value GetDAR = Written None"
| "failure_value (SetForceAspectRatio far) = Void"
| "failure_value GetForceAspectRatio = Bool False"

text \<open>A sequence of calls, one after the other; the results in order.\<close>

fun proxy_calls ::
  "'c gstreamer \<Rightarrow> gst_gl \<Rightarrow> 'c proxy_op list \<Rightarrow> 'c system
     \<Rightarrow> ('c system \<times> (proxy_result \<times> event list) list) option" where
  "proxy_calls lib gl [] w = Some (w, [])"
| "proxy_calls lib gl (op # ops) w =
     (case proxy_call lib gl op w of
        None \<Rightarrow> None
      | Some (w1, r, evs) \<Rightarrow>
          (case proxy_calls lib gl ops w1 of
             None \<Rightarrow> None
           | Some (w2, rs) \<Rightarrow> Some (w2, (r, evs) # rs)))"

section \<open>Reference behaviour of the library calls\<close>

text \<open>
  Every theorem below is stated for an arbitrary behaviour of the library. To run the
  model on concrete inputs, this section fixes one: caps with the three fields the
  file depends on, and the arithmetic of \<^verbatim>\<open>gst_util_fraction_multiply\<close>,
  \<^verbatim>\<open>gst_video_calculate_display_ratio\<close> and \<^verbatim>\<open>gst_util_uint64_scale_int\<close> as
  GStreamer implements it on 32-bit \<^verbatim>\<open>gint\<close>.

  A caps field is a fixed value or a range; caps are fixed when every field is. Only
  fixed raw video caps parse into a video info; caps of another media type are fixed
  but do not parse.
\<close>

datatype 'a field = Fixed 'a | Range 'a 'a

datatype video_caps =
    RawVideo "gint field" "gint field" "(gint \<times> gint) field"
  | OtherMedia string

fun caps_is_fixed :: "video_caps \<Rightarrow> bool" where
  "caps_is_fixed (RawVideo (Fixed w) (Fixed h) (Fixed par)) = True"
| "caps_is_fixed (RawVideo _ _ _) = False"
| "caps_is_fixed (OtherMedia _) = True"

fun video_info_from_caps :: "video_caps \<Rightarrow> GstVideoInfo option" where
  "video_info_from_caps (RawVideo (Fixed w) (Fixed h) (Fixed (n, d))) =
     Some \<lparr>info_width = w, info_height = h, info_par_n = n, info_par_d = d\<rparr>"
| "video_info_from_caps _ = None"

definition G_MAXINT :: int where
  "G_MAXINT = 2147483647"

text \<open>
  \<^verbatim>\<open>gst_util_fraction_multiply (a_n, a_d, b_n, b_d, &res_n, &res_d)\<close>: a zero
  denominator is refused; a zero numerator gives 0/1; otherwise both fractions are
  reduced, then reduced crosswise, the two products are refused if they would exceed
  \<^verbatim>\<open>G_MAXINT\<close>, and the product is reduced again.
\<close>

definition gst_util_fraction_multiply :: "int \<Rightarrow> int \<Rightarrow> int \<Rightarrow> int \<Rightarrow> (int \<times> int) option" where
  "gst_util_fraction_multiply a_n a_d b_n b_d =
    (if a_d = 0 \<or> b_d = 0 then None
     else if a_n = 0 \<or> b_n = 0 then Some (0, 1)
     else
       let g1 = gcd a_n a_d; a_n1 = a_n div g1; a_d1 = a_d div g1;
           g2 = gcd b_n b_d; b_n1 = b_n div g2; b_d1 = b_d div g2;
           g3 = gcd a_n1 b_d1; a_n2 = a_n1 div g3; b_d2 = b_d1 div g3;
           g4 = gcd a_d1 b_n1; a_d2 = a_d1 div g4; b_n2 = b_n1 div g4
       in if a_n2 \<noteq> 0 \<and> G_MAXINT div \<bar>a_n2\<bar> < \<bar>b_n2\<bar> then None
          else if G_MAXINT div \<bar>a_d2\<bar> < \<bar>b_d2\<bar> then None
          else
            let res_n = a_n2 * b_n2; res_d = a_d2 * b_d2; g = gcd res_n res_d
            in Some (res_n div g, res_d div g))"

text \<open>
  \<^verbatim>\<open>gst_video_calculate_display_ratio\<close>: (width / height) * (video PAR) *
  (display PAR inverted), by two fraction products; \<^verbatim>\<open>FALSE\<close> if one of them is
  refused or the result is not positive.
\<close>

definition video_calculate_display_ratio ::
  "guint \<Rightarrow> guint \<Rightarrow> guint \<Rightarrow> guint \<Rightarrow> guint \<Rightarrow> guint \<Rightarrow> (guint \<times> guint) option" where
  "video_calculate_display_ratio video_width video_height video_par_n video_par_d
       display_par_n display_par_d =
    (case gst_util_fraction_multiply (sint video_width) (sint video_height)
            (sint video_par_n) (sint video_par_d) of
       None \<Rightarrow> None
     | Some (tmp_n, tmp_d) \<Rightarrow>
        (case gst_util_fraction_multiply tmp_n tmp_d (sint display_par_d) (sint display_par_n) of
           None \<Rightarrow> None
         | Some (num, den) \<Rightarrow>
             if 0 < num \<and> 0 < den then Some (word_of_int num, word_of_int den) else None))"

text \<open>
  \<^verbatim>\<open>gst_util_uint64_scale_int (val, num, denom)\<close>: \<^verbatim>\<open>val * num / denom\<close> rounded
  down, without overflow in the product; \<^verbatim>\<open>G_MAXUINT64\<close> if the arguments are
  refused or the result does not fit.
\<close>

definition util_uint64_scale_int :: "guint64 \<Rightarrow> gint \<Rightarrow> gint \<Rightarrow> guint64" where
  "util_uint64_scale_int val num denom =
    (if sint denom \<le> 0 \<or> sint num < 0 then - 1
     else
       let r = (uint val * sint num) div sint denom
       in if r < 2 ^ 64 then word_of_int r else - 1)"

definition gst :: "video_caps gstreamer" where
  "gst =
    \<lparr>gst_caps_is_fixed = caps_is_fixed,
     gst_caps_is_equal_fixed = (\<lambda>a b. a = b),
     gst_video_info_from_caps = video_info_from_caps,
     gst_video_calculate_display_ratio = video_calculate_display_ratio,
     gst_util_uint64_scale_int = util_uint64_scale_int\<rparr>"

section \<open>Concrete inputs\<close>

text \<open>Video infos, caps, a render thread that never paints (and a clock that advances
  by exactly one millisecond per sleep), the same with an item thread that never runs
  the queued update, and the states of one run of the item: created
  and given its GL contexts, set to stretch, negotiated, handed one frame.\<close>

definition info_pal :: GstVideoInfo where
  "info_pal = \<lparr>info_width = 720, info_height = 576, info_par_n = 16, info_par_d = 15\<rparr>"

definition info_keep_width :: GstVideoInfo where
  "info_keep_width = \<lparr>info_width = 300, info_height = 100, info_par_n = 1, info_par_d = 7\<rparr>"

definition info_approx :: GstVideoInfo where
  "info_approx = \<lparr>info_width = 100, info_height = 100, info_par_n = 3, info_par_d = 7\<rparr>"

definition info_par_0 :: GstVideoInfo where
  "info_par_0 = \<lparr>info_width = 1920, info_height = 1080, info_par_n = 0, info_par_d = 1\<rparr>"

definition info_1080p :: GstVideoInfo where
  "info_1080p = \<lparr>info_width = 1920, info_height = 1080, info_par_n = 1, info_par_d = 1\<rparr>"

definition default_priv :: "video_caps QtGLVideoItemPrivate" where
  "default_priv = new_QtGLVideoItemPrivate (Some 1)"

definition caps_pal :: video_caps where
  "caps_pal = RawVideo (Fixed 720) (Fixed 576) (Fixed (16, 15))"

definition caps_overflow :: video_caps where
  "caps_overflow = RawVideo (Fixed 1920) (Fixed 1080) (Fixed (2147483647, 1))"

definition caps_range :: video_caps where
  "caps_range = RawVideo (Range 1 4096) (Fixed 576) (Fixed (1, 1))"

definition stalled_renderer :: "video_caps render_env" where
  "stalled_renderer =
    \<lparr>update_runs = True, now_start = 0, now_after = (\<lambda>i. (int i + 1) * ms),
     render_thread = (\<lambda>k p. p)\<rparr>"

definition stalled_item_thread :: "video_caps render_env" where
  "stalled_item_thread = stalled_renderer\<lparr>update_runs := False\<rparr>"

definition gl_always_ok :: gst_gl where
  "gl_always_ok =
    \<lparr>gst_is_gl_display = (\<lambda>d. d \<noteq> None), gst_is_gl_context = (\<lambda>c. c \<noteq> None),
     gst_gl_context_new = (\<lambda>d. Some 5), gst_gl_context_create = (\<lambda>c other. True)\<rparr>"

definition center_rect_unused ::
  "gint \<Rightarrow> gint \<Rightarrow> GstVideoRectangle \<Rightarrow> GstVideoRectangle option" where
  "center_rect_unused src_w src_h dst = None"

definition sys_ready :: "video_caps system" where
  "sys_ready = (new_QtGLVideoItem (Some 1))\<lparr>item :=
     \<lparr>priv = Some ((new_QtGLVideoItemPrivate (Some 1))
               \<lparr>qt_context := Some 2, other_context := Some 3, gl_context := Some 4\<rparr>),
      m_openGlContextInitialized = True\<rparr>\<rparr>"

definition sys_stretch :: "video_caps system" where
  "sys_stretch = the (setForceAspectRatio False sys_ready)"

definition sys_negotiated :: "video_caps system" where
  "sys_negotiated = snd (the (setCaps gst (Some caps_pal) sys_stretch))"

definition priv_negotiated :: "video_caps QtGLVideoItemPrivate" where
  "priv_negotiated = the (priv (item sys_negotiated))"

definition sys_frame :: "video_caps system" where
  "sys_frame = fst (the (setBuffer stalled_renderer (Some 7) sys_negotiated))"

definition priv_frame :: "video_caps QtGLVideoItemPrivate" where
  "priv_frame = the (priv (item sys_frame))"

definition bounding_800x600 :: QRectF where
  "bounding_800x600 = \<lparr>qr_x = 0, qr_y = 0, qr_width = 800, qr_height = 600\<rparr>"

definition bounding_fractional :: QRectF where
  "bounding_fractional = \<lparr>qr_x = 0, qr_y = 0, qr_width = 201 / 2, qr_height = 50\<rparr>"




definition info_overflow :: GstVideoInfo where
  "info_overflow =
     \<lparr>info_width = 1920, info_height = 1080, info_par_n = 2147483647, info_par_d = 1\<rparr>"

definition sys_failed :: "video_caps system" where
  "sys_failed = snd (the (setCaps gst (Some caps_overflow) sys_frame))"

definition priv_failed :: "video_caps QtGLVideoItemPrivate" where
  "priv_failed = the (priv (item sys_failed))"

text \<open>A render thread that paints once, during the first sleep: what
  \<open>updatePaintNode\<close> does to the shared struct of a ready item.\<close>

definition paint :: "video_caps QtGLVideoItemPrivate \<Rightarrow> video_caps QtGLVideoItemPrivate" where
  "paint p =
    (case updatePaintNode center_rect_unused
            \<lparr>priv = Some p, m_openGlContextInitialized = True\<rparr> bounding_800x600 None of
       None \<Rightarrow> p
     | Some (it, n) \<Rightarrow> (case priv it of None \<Rightarrow> p | Some p' \<Rightarrow> p'))"

definition prompt_renderer :: "video_caps render_env" where
  "prompt_renderer =
    \<lparr>update_runs = True, now_start = 0, now_after = (\<lambda>i. (int i + 1) * ms),
     render_thread = (\<lambda>k p. if k = 1 then paint p else p)\<rparr>"

definition sys_shown :: "video_caps system" where
  "sys_shown = fst (the (setBuffer prompt_renderer (Some 7) sys_negotiated))"

section \<open>Properties of \<^verbatim>\<open>_calculate_par\<close>\<close>

lemma calculate_par_unfold:
  "calculate_par lib p info =
     scale_to_display_ratio lib p (info_width info) (info_height info)
       (if info_par_n info = 0 then 1 else info_par_n info) (info_par_d info)
       (if par_n p \<noteq> 0 \<and> par_d p \<noteq> 0 then par_n p else 1)
       (if par_n p \<noteq> 0 \<and> par_d p \<noteq> 0 then par_d p else 1)"
  by (cases "par_n p = 0"; cases "par_d p = 0") (simp_all add: calculate_par_def Let_def)

lemma default_priv_par: "par_n default_priv = 0" "par_d default_priv = 1"
  by (simp_all add: default_priv_def new_QtGLVideoItemPrivate_def)

text \<open>
  C3. Once the display ratio \<open>num / den\<close> has been computed (both non-zero),
  \<^verbatim>\<open>_calculate_par\<close> succeeds and sets exactly the two display fields, by three
  branches: if the height is divisible by \<open>den\<close>, the height is kept and the width is
  the height scaled by \<open>num / den\<close>; otherwise, if the width is divisible by \<open>num\<close>,
  the width is kept and the height is the width scaled by \<open>den / num\<close>; otherwise the
  first computation is used again.
\<close>

theorem calculate_par_three_branches:
  assumes ratio:
    "gst_video_calculate_display_ratio lib (info_width info) (info_height info)
       (if info_par_n info = 0 then 1 else info_par_n info) (info_par_d info)
       (if par_n p \<noteq> 0 \<and> par_d p \<noteq> 0 then par_n p else 1)
       (if par_n p \<noteq> 0 \<and> par_d p \<noteq> 0 then par_d p else 1)
     = Some (num, den)"
    and nz: "num \<noteq> 0" "den \<noteq> 0"
  shows
    "calculate_par lib p info =
       Some (True,
         if info_height info mod den = 0 then
           p\<lparr>display_width :=
                ucast (gst_util_uint64_scale_int lib (scast (info_height info)) num den),
              display_height := info_height info\<rparr>
         else if info_width info mod num = 0 then
           p\<lparr>display_width := info_width info,
              display_height :=
                ucast (gst_util_uint64_scale_int lib (scast (info_width info)) den num)\<rparr>
         else
           p\<lparr>display_width :=
                ucast (gst_util_uint64_scale_int lib (scast (info_height info)) num den),
              display_height := info_height info\<rparr>)"
  using ratio nz
  by (simp add: calculate_par_unfold scale_to_display_ratio_def)

theorem calculate_par_three_branches_witness:
  "gst_video_calculate_display_ratio gst 720 576 16 15 1 1 = Some (4, 3)
   \<and> (576 :: guint) mod 3 = 0
   \<and> calculate_par gst default_priv info_pal
       = Some (True, default_priv\<lparr>display_width := 768, display_height := 576\<rparr>)
   \<and> gst_video_calculate_display_ratio gst 300 100 1 7 1 1 = Some (3, 7)
   \<and> (100 :: guint) mod 7 \<noteq> 0 \<and> (300 :: guint) mod 3 = 0
   \<and> calculate_par gst default_priv info_keep_width
       = Some (True, default_priv\<lparr>display_width := 300, display_height := 700\<rparr>)
   \<and> gst_video_calculate_display_ratio gst 100 100 3 7 1 1 = Some (3, 7)
   \<and> (100 :: guint) mod 3 \<noteq> 0
   \<and> calculate_par gst default_priv info_approx
       = Some (True, default_priv\<lparr>display_width := 42, display_height := 100\<rparr>)"
proof -
  have r1: "gst_video_calculate_display_ratio gst 720 576 16 15 1 1 = Some (4, 3)"
    by code_simp
  have r2: "gst_video_calculate_display_ratio gst 300 100 1 7 1 1 = Some (3, 7)"
    by code_simp
  have r3: "gst_video_calculate_display_ratio gst 100 100 3 7 1 1 = Some (3, 7)"
    by code_simp
  have s1: "(ucast (gst_util_uint64_scale_int gst (scast (576 :: gint)) 4 3) :: gint) = 768"
    by code_simp
  have s2: "(ucast (gst_util_uint64_scale_int gst (scast (300 :: gint)) 7 3) :: gint) = 700"
    by code_simp
  have s3: "(ucast (gst_util_uint64_scale_int gst (scast (100 :: gint)) 3 7) :: gint) = 42"
    by code_simp
  note d = default_priv_par
  have c1: "calculate_par gst default_priv info_pal
       = Some (True, default_priv\<lparr>display_width := 768, display_height := 576\<rparr>)"
    using calculate_par_three_branches [of gst info_pal default_priv 4 3] r1 s1 d
    by (simp add: info_pal_def)
  have c2: "calculate_par gst default_priv info_keep_width
       = Some (True, default_priv\<lparr>display_width := 300, display_height := 700\<rparr>)"
    using calculate_par_three_branches [of gst info_keep_width default_priv 3 7] r2 s2 d
    by (simp add: info_keep_width_def)
  have c3: "calculate_par gst default_priv info_approx
       = Some (True, default_priv\<lparr>display_width := 42, display_height := 100\<rparr>)"
    using calculate_par_three_branches [of gst info_approx default_priv 3 7] r3 s3 d
    by (simp add: info_approx_def)
  from r1 r2 r3 c1 c2 c3 show ?thesis
    by simp
qed

text \<open>
  C4, as the code has it. The display's PAR that \<^verbatim>\<open>_calculate_par\<close> hands to the
  ratio computation is (1, 1) as soon as one component of the override is 0: for the
  unset (0, 0), and also for (0, d) and (n, 0), among them the constructor's default
  (0, 1). Only an override with both components non-zero is used as given.
\<close>

theorem calculate_par_display_par:
  "calculate_par lib p info =
     scale_to_display_ratio lib p (info_width info) (info_height info)
       (if info_par_n info = 0 then 1 else info_par_n info) (info_par_d info)
       (if par_n p = 0 \<or> par_d p = 0 then 1 else par_n p)
       (if par_n p = 0 \<or> par_d p = 0 then 1 else par_d p)"
  by (cases "par_n p = 0"; cases "par_d p = 0") (simp_all add: calculate_par_unfold)

theorem calculate_par_display_par_witness:
  "calculate_par gst default_priv info_1080p
     = scale_to_display_ratio gst default_priv 1920 1080 1 1 1 1
   \<and> calculate_par gst (default_priv\<lparr>par_n := 0, par_d := 0\<rparr>) info_1080p
     = scale_to_display_ratio gst (default_priv\<lparr>par_n := 0, par_d := 0\<rparr>) 1920 1080 1 1 1 1
   \<and> calculate_par gst (default_priv\<lparr>par_n := 12, par_d := 11\<rparr>) info_1080p
     = scale_to_display_ratio gst (default_priv\<lparr>par_n := 12, par_d := 11\<rparr>) 1920 1080 1 1 12 11"
  using calculate_par_display_par [of gst default_priv info_1080p]
    calculate_par_display_par [of gst "default_priv\<lparr>par_n := 0, par_d := 0\<rparr>" info_1080p]
    calculate_par_display_par [of gst "default_priv\<lparr>par_n := 12, par_d := 11\<rparr>" info_1080p]
  by (simp add: default_priv_par info_1080p_def)

text \<open>Against C4 as the spec words it: the default override (0, 1) is not (0, 0), yet it
  is not used as given. Used as given it would make the ratio computation fail; the
  code computes with (1, 1) and succeeds.\<close>

theorem calculate_par_display_par_counterexample:
  "(par_n default_priv, par_d default_priv) = (0, 1)
   \<and> (par_n default_priv, par_d default_priv) \<noteq> (0, 0)
   \<and> scale_to_display_ratio gst default_priv 1920 1080 1 1
        (par_n default_priv) (par_d default_priv) = Some (False, default_priv)
   \<and> calculate_par gst default_priv info_1080p
       = Some (True, default_priv\<lparr>display_width := 1920, display_height := 1080\<rparr>)
   \<and> calculate_par gst default_priv info_1080p
       \<noteq> scale_to_display_ratio gst default_priv (info_width info_1080p)
           (info_height info_1080p) (info_par_n info_1080p) (info_par_d info_1080p)
           (par_n default_priv) (par_d default_priv)"
proof -
  have a: "scale_to_display_ratio gst default_priv 1920 1080 1 1 0 1 = Some (False, default_priv)"
    by code_simp
  have b: "calculate_par gst default_priv info_1080p
       = Some (True, default_priv\<lparr>display_width := 1920, display_height := 1080\<rparr>)"
    by code_simp
  from a b show ?thesis
    by (simp add: default_priv_par info_1080p_def)
qed

text \<open>
  C10. For a video info whose PAR numerator is 0, \<^verbatim>\<open>_calculate_par\<close> does not fail and
  does not hand the 0 on: it goes on with the ratio computation and the three branches
  (lines 461-490) with the numerator 1 in place of the 0, the other arguments (width,
  height, PAR denominator, the display's PAR) as for any other info. Its result is
  therefore the result for the same info with numerator 1.
\<close>

theorem calculate_par_zero_par_n:
  "info_par_n info = 0 \<Longrightarrow>
     calculate_par lib p info =
       scale_to_display_ratio lib p (info_width info) (info_height info)
         1 (info_par_d info)
         (if par_n p \<noteq> 0 \<and> par_d p \<noteq> 0 then par_n p else 1)
         (if par_n p \<noteq> 0 \<and> par_d p \<noteq> 0 then par_d p else 1)
     \<and> calculate_par lib p info = calculate_par lib p (info\<lparr>info_par_n := 1\<rparr>)"
  by (simp add: calculate_par_unfold)

theorem calculate_par_zero_par_n_witness:
  "info_par_n info_par_0 = 0
   \<and> calculate_par gst default_priv info_par_0
       = scale_to_display_ratio gst default_priv 1920 1080 1 1 1 1
   \<and> calculate_par gst default_priv info_par_0
       = calculate_par gst default_priv (info_par_0\<lparr>info_par_n := 1\<rparr>)
   \<and> calculate_par gst default_priv info_par_0
       = Some (True, default_priv\<lparr>display_width := 1920, display_height := 1080\<rparr>)
   \<and> scale_to_display_ratio gst default_priv 1920 1080 0 1 1 1 = Some (False, default_priv)
   \<and> gst_video_calculate_display_ratio gst 1920 1080 0 1 1 1 = None"
proof -
  have z: "info_par_n info_par_0 = 0"
    by (simp add: info_par_0_def)
  have v: "calculate_par gst default_priv info_par_0
            = Some (True, default_priv\<lparr>display_width := 1920, display_height := 1080\<rparr>)"
    by code_simp
  have g: "scale_to_display_ratio gst default_priv 1920 1080 0 1 1 1
             = Some (False, default_priv)"
    by code_simp
  have f: "gst_video_calculate_display_ratio gst 1920 1080 0 1 1 1 = None"
    by code_simp
  note both = calculate_par_zero_par_n [OF z, of gst default_priv]
  from both [THEN conjunct1]
  have e1: "calculate_par gst default_priv info_par_0
          = scale_to_display_ratio gst default_priv 1920 1080 1 1 1 1"
    by (simp add: default_priv_par info_par_0_def)
  from both [THEN conjunct2]
  have e2: "calculate_par gst default_priv info_par_0
          = calculate_par gst default_priv (info_par_0\<lparr>info_par_n := 1\<rparr>)" .
  from z e1 e2 v g f show ?thesis
    by (intro conjI)
qed

section \<open>Properties of \<^verbatim>\<open>setCaps\<close>\<close>

lemma calculate_par_ratio_fails:
  assumes "gst_video_calculate_display_ratio lib (info_width info) (info_height info)
         (if info_par_n info = 0 then 1 else info_par_n info) (info_par_d info)
         (if par_n p \<noteq> 0 \<and> par_d p \<noteq> 0 then par_n p else 1)
         (if par_n p \<noteq> 0 \<and> par_d p \<noteq> 0 then par_d p else 1) = None"
  shows "calculate_par lib p info = Some (False, p)"
  unfolding calculate_par_unfold scale_to_display_ratio_def
  by (simp only: assms option.case)

lemma sys_frame_priv: "priv (item sys_frame) = Some priv_frame"
  by code_simp

text \<open>The failure returns of lines 499-512 come before any write: a null or non-fixed
  caps argument, a null link, a null \<^verbatim>\<open>priv\<close>, caps that do not parse.\<close>

lemma setCaps_early_failure_unchanged:
  assumes "caps_arg = None
     \<or> (\<exists>c. caps_arg = Some c \<and> \<not> gst_caps_is_fixed lib c)
     \<or> qt_item w = nullptr
     \<or> priv (item w) = None
     \<or> (\<exists>c p. caps_arg = Some c \<and> priv (item w) = Some p
            \<and> (caps p = None \<or> (\<exists>pc. caps p = Some pc \<and> \<not> gst_caps_is_equal_fixed lib pc c))
            \<and> gst_video_info_from_caps lib c = None)"
  shows "setCaps lib caps_arg w = Some (False, w)"
  using assms by (auto simp add: setCaps_def split: option.splits)

text \<open>
  C1, on the path where it fails. When the caps are fixed, differ from the stored ones
  and parse, but the ratio computation fails, \<^verbatim>\<open>setCaps\<close> returns \<^verbatim>\<open>FALSE\<close> only
  after \<^verbatim>\<open>_reset\<close> has run and the new caps have been stored: both frame slots are
  emptied, \<^verbatim>\<open>negotiated\<close> is cleared and the stored caps are the rejected ones. The
  shared state is not what it was before the call. A second call with the same caps
  then takes the equal-caps shortcut and returns \<^verbatim>\<open>TRUE\<close> with \<^verbatim>\<open>negotiated\<close> still
  cleared.
\<close>

theorem setCaps_failed_ratio_resets:
  assumes fixed: "gst_caps_is_fixed lib c"
    and live: "qt_item w \<noteq> nullptr" "priv (item w) = Some p"
    and differs: "caps p = None \<or> (\<exists>pc. caps p = Some pc \<and> \<not> gst_caps_is_equal_fixed lib pc c)"
    and parsed: "gst_video_info_from_caps lib c = Some info"
    and ratio:
      "gst_video_calculate_display_ratio lib (info_width info) (info_height info)
         (if info_par_n info = 0 then 1 else info_par_n info) (info_par_d info)
         (if par_n p \<noteq> 0 \<and> par_d p \<noteq> 0 then par_n p else 1)
         (if par_n p \<noteq> 0 \<and> par_d p \<noteq> 0 then par_d p else 1) = None"
  shows "setCaps lib (Some c) w
           = Some (False, w\<lparr>item := (item w)\<lparr>priv := Some ((reset p)\<lparr>caps := Some c\<rparr>)\<rparr>\<rparr>)
         \<and> (gst_caps_is_equal_fixed lib c c \<longrightarrow>
              setCaps lib (Some c)
                  (w\<lparr>item := (item w)\<lparr>priv := Some ((reset p)\<lparr>caps := Some c\<rparr>)\<rparr>\<rparr>)
                = Some (True, w\<lparr>item := (item w)\<lparr>priv := Some ((reset p)\<lparr>caps := Some c\<rparr>)\<rparr>\<rparr>))"
proof -
  have same: "par_n ((reset p)\<lparr>caps := Some c\<rparr>) = par_n p"
    "par_d ((reset p)\<lparr>caps := Some c\<rparr>) = par_d p"
    by (simp_all add: reset_def)
  have par: "calculate_par lib ((reset p)\<lparr>caps := Some c\<rparr>) info
               = Some (False, (reset p)\<lparr>caps := Some c\<rparr>)"
    by (rule calculate_par_ratio_fails) (simp only: same ratio)
  from differs have neq: "\<not> (case caps p of None \<Rightarrow> False
                               | Some pc \<Rightarrow> gst_caps_is_equal_fixed lib pc c)"
    by (auto split: option.splits)
  have first: "setCaps lib (Some c) w
           = Some (False, w\<lparr>item := (item w)\<lparr>priv := Some ((reset p)\<lparr>caps := Some c\<rparr>)\<rparr>\<rparr>)"
    using fixed live neq parsed par by (simp add: setCaps_def Let_def)
  have second: "gst_caps_is_equal_fixed lib c c \<Longrightarrow>
      setCaps lib (Some c) (w\<lparr>item := (item w)\<lparr>priv := Some ((reset p)\<lparr>caps := Some c\<rparr>)\<rparr>\<rparr>)
        = Some (True, w\<lparr>item := (item w)\<lparr>priv := Some ((reset p)\<lparr>caps := Some c\<rparr>)\<rparr>\<rparr>)"
    using fixed live by (simp add: setCaps_def)
  from first second show ?thesis
    by blast
qed

theorem setCaps_failed_ratio_resets_witness:
  "gst_caps_is_fixed gst caps_overflow
   \<and> gst_video_info_from_caps gst caps_overflow = Some info_overflow
   \<and> gst_video_calculate_display_ratio gst 1920 1080 2147483647 1 1 1 = None
   \<and> qt_item sys_frame = this_item
   \<and> priv (item sys_frame) = Some priv_frame
   \<and> caps priv_frame = Some caps_pal \<and> negotiated priv_frame
   \<and> back_buffer priv_frame = Some 7 \<and> waiting_on_render priv_frame
   \<and> setCaps gst (Some caps_overflow) sys_frame = Some (False, sys_failed)
   \<and> sys_failed \<noteq> sys_frame
   \<and> priv (item sys_failed) = Some priv_failed
   \<and> caps priv_failed = Some caps_overflow \<and> \<not> negotiated priv_failed
   \<and> back_buffer priv_failed = None \<and> \<not> waiting_on_render priv_failed
   \<and> setCaps gst (Some caps_overflow) sys_failed = Some (True, sys_failed)"
proof -
  have fixed: "gst_caps_is_fixed gst caps_overflow"
    by code_simp
  have parsed: "gst_video_info_from_caps gst caps_overflow = Some info_overflow"
    by code_simp
  have ratio: "gst_video_calculate_display_ratio gst 1920 1080 2147483647 1 1 1 = None"
    by code_simp
  have live: "qt_item sys_frame = this_item"
    by code_simp
  have before: "caps priv_frame = Some caps_pal" "negotiated priv_frame"
    "back_buffer priv_frame = Some 7" "waiting_on_render priv_frame"
    "par_n priv_frame = 0"
    by code_simp+
  have differs: "\<not> gst_caps_is_equal_fixed gst caps_pal caps_overflow"
    by code_simp
  have after: "sys_failed \<noteq> sys_frame" "priv (item sys_failed) = Some priv_failed"
    "caps priv_failed = Some caps_overflow" "\<not> negotiated priv_failed"
    "back_buffer priv_failed = None" "\<not> waiting_on_render priv_failed"
    by code_simp+
  have refl: "gst_caps_is_equal_fixed gst caps_overflow caps_overflow"
    by code_simp
  have failed: "sys_frame\<lparr>item := (item sys_frame)
                   \<lparr>priv := Some ((reset priv_frame)\<lparr>caps := Some caps_overflow\<rparr>)\<rparr>\<rparr> = sys_failed"
    by code_simp
  from setCaps_failed_ratio_resets [of gst caps_overflow sys_frame priv_frame info_overflow]
    fixed parsed ratio live sys_frame_priv before differs refl
  have "setCaps gst (Some caps_overflow) sys_frame = Some (False, sys_failed)
        \<and> setCaps gst (Some caps_overflow) sys_failed = Some (True, sys_failed)"
    by (simp add: info_overflow_def failed)
  with fixed parsed ratio live sys_frame_priv before after show ?thesis
    by simp
qed

text \<open>
  C6. \<^verbatim>\<open>setCaps\<close> with fixed caps that are equal to the stored caps returns \<^verbatim>\<open>TRUE\<close>
  and leaves the whole system as it was: both frame slots and \<^verbatim>\<open>waiting_on_render\<close>
  included.
\<close>

theorem setCaps_same_caps_noop:
  assumes fixed: "gst_caps_is_fixed lib c"
    and live: "qt_item w \<noteq> nullptr" "priv (item w) = Some p"
    and stored: "caps p = Some pc" "gst_caps_is_equal_fixed lib pc c"
  shows "setCaps lib (Some c) w = Some (True, w)"
  using assms by (simp add: setCaps_def)

theorem setCaps_same_caps_noop_witness:
  "setCaps gst (Some caps_pal) sys_stretch = Some (True, sys_negotiated)
   \<and> map_option fst (setBuffer stalled_renderer (Some 7) sys_negotiated) = Some sys_frame
   \<and> gst_caps_is_fixed gst caps_pal
   \<and> qt_item sys_frame = this_item
   \<and> priv (item sys_frame) = Some priv_frame
   \<and> caps priv_frame = Some caps_pal
   \<and> gst_caps_is_equal_fixed gst caps_pal caps_pal
   \<and> back_buffer priv_frame = Some 7 \<and> waiting_on_render priv_frame
   \<and> setCaps gst (Some caps_pal) sys_frame = Some (True, sys_frame)"
proof -
  have run: "setCaps gst (Some caps_pal) sys_stretch = Some (True, sys_negotiated)"
    "map_option fst (setBuffer stalled_renderer (Some 7) sys_negotiated) = Some sys_frame"
    by code_simp+
  have fixed: "gst_caps_is_fixed gst caps_pal"
    by code_simp
  have live: "qt_item sys_frame = this_item"
    by code_simp
  have stored: "caps priv_frame = Some caps_pal" "gst_caps_is_equal_fixed gst caps_pal caps_pal"
    "back_buffer priv_frame = Some 7" "waiting_on_render priv_frame"
    by code_simp+
  from setCaps_same_caps_noop [of gst caps_pal sys_frame priv_frame caps_pal]
    fixed live sys_frame_priv stored
  have "setCaps gst (Some caps_pal) sys_frame = Some (True, sys_frame)"
    by simp
  with run fixed live sys_frame_priv stored show ?thesis
    by simp
qed

section \<open>Properties of \<^verbatim>\<open>setBuffer\<close>\<close>

text \<open>
  C7. While \<^verbatim>\<open>negotiated\<close> is false, \<^verbatim>\<open>setBuffer\<close> returns with the system
  unchanged (the frame slots and \<^verbatim>\<open>waiting_on_render\<close> keep their values, so empty
  slots stay empty), and its only effect is at most one warning: no update is invoked
  and nothing is waited for.
\<close>

theorem setBuffer_unnegotiated_drops:
  assumes "priv (item w) = Some p" and "\<not> negotiated p"
  shows "setBuffer env buffer w =
           Some (w, if qt_item w = nullptr then []
                    else [Warning ''Got buffer on unnegotiated QtGLVideoItem. Dropping''])"
  using assms by (simp add: setBuffer_def)

theorem setBuffer_unnegotiated_drops_witness:
  "priv (item (new_QtGLVideoItem (Some 1))) = Some default_priv
   \<and> \<not> negotiated default_priv
   \<and> front_buffer default_priv = None \<and> back_buffer default_priv = None
   \<and> \<not> waiting_on_render default_priv
   \<and> setCaps gst (Some caps_range) (new_QtGLVideoItem (Some 1))
       = Some (False, new_QtGLVideoItem (Some 1))
   \<and> setBuffer stalled_renderer (Some 7) (new_QtGLVideoItem (Some 1))
       = Some (new_QtGLVideoItem (Some 1),
               [Warning ''Got buffer on unnegotiated QtGLVideoItem. Dropping''])"
proof -
  have p: "priv (item (new_QtGLVideoItem (Some 1) :: video_caps system)) = Some default_priv"
    by (simp add: new_QtGLVideoItem_def default_priv_def)
  have n: "\<not> negotiated default_priv" "front_buffer default_priv = None"
    "back_buffer default_priv = None" "\<not> waiting_on_render default_priv"
    by (simp_all add: default_priv_def new_QtGLVideoItemPrivate_def)
  have l: "qt_item (new_QtGLVideoItem (Some 1) :: video_caps system) = this_item"
    by (simp add: new_QtGLVideoItem_def)
  have c: "setCaps gst (Some caps_range) (new_QtGLVideoItem (Some 1))
       = Some (False, new_QtGLVideoItem (Some 1))"
    by code_simp
  from setBuffer_unnegotiated_drops [OF p n(1), of stalled_renderer "Some 7"] p n l c
  show ?thesis
    by simp
qed

lemma wait_for_render_clear:
  assumes mono: "\<forall>k q. waiting_on_render (render_thread env k q) \<longrightarrow> waiting_on_render q"
    and clear: "\<not> waiting_on_render p"
  shows "wait_for_render env until i p evs = Some (render_thread env (2 * i) p, evs)"
proof -
  from mono clear have "\<not> waiting_on_render (render_thread env (2 * i) p)"
    by blast
  then show ?thesis
    by (subst wait_for_render.simps) (simp add: Let_def)
qed

lemma wait_for_render_bounded:
  assumes mono: "\<forall>k q. waiting_on_render (render_thread env k q) \<longrightarrow> waiting_on_render q"
    and clock: "\<forall>j. 100 \<le> j \<longrightarrow> until < now_after env j"
  shows "i \<le> 100 \<Longrightarrow>
    \<exists>p' k. k \<le> 101 - i \<and>
      (wait_for_render env until i p evs = Some (p', evs @ replicate k Sleep_1ms)
         \<and> \<not> waiting_on_render p'
       \<or> wait_for_render env until i p evs
            = Some (p', evs @ replicate k Sleep_1ms @ [Warning ''Timed out waiting for rendering to finish''])
         \<and> waiting_on_render p' \<and> 0 < k \<and> until < now_after env (i + k - 1))"
proof (induction "100 - i" arbitrary: i p evs rule: less_induct)
  case less
  define p1 where "p1 = render_thread env (2 * i) p"
  define p2 where "p2 = render_thread env (2 * i + 1) p1"
  show ?case
  proof (cases "waiting_on_render p1")
    case False
    then have "wait_for_render env until i p evs = Some (p1, evs)"
      by (subst wait_for_render.simps) (simp add: Let_def p1_def)
    with False show ?thesis
      by (intro exI [of _ p1] exI [of _ 0]) simp
  next
    case w1: True
    show ?thesis
    proof (cases "waiting_on_render p2 \<and> until < now_after env i")
      case True
      with w1 have "wait_for_render env until i p evs
          = Some (p2, evs @ [Sleep_1ms, Warning ''Timed out waiting for rendering to finish''])"
        by (subst wait_for_render.simps) (simp add: Let_def p1_def p2_def)
      with True less.prems show ?thesis
        by (intro exI [of _ p2] exI [of _ 1]) simp
    next
      case False
      with w1 have step: "wait_for_render env until i p evs
          = wait_for_render env until (Suc i) p2 (evs @ [Sleep_1ms])"
        by (subst wait_for_render.simps) (auto simp add: Let_def p1_def p2_def)
      show ?thesis
      proof (cases "waiting_on_render p2")
        case False
        from wait_for_render_clear [OF mono False]
        have r: "wait_for_render env until (Suc i) p2 (evs @ [Sleep_1ms])
                   = Some (render_thread env (2 * Suc i) p2, evs @ [Sleep_1ms])" .
        from mono False have "\<not> waiting_on_render (render_thread env (2 * Suc i) p2)"
          by blast
        with r step less.prems show ?thesis
          by (intro exI [of _ "render_thread env (2 * Suc i) p2"] exI [of _ 1]) simp
      next
        case True
        with \<open>\<not> (waiting_on_render p2 \<and> until < now_after env i)\<close>
        have "\<not> until < now_after env i"
          by simp
        with clock have "i < 100"
          by (metis not_le_imp_less)
        then have "100 - Suc i < 100 - i" and "Suc i \<le> 100"
          by simp_all
        from less.hyps [OF this, of p2 "evs @ [Sleep_1ms]"]
        obtain p' k where k: "k \<le> 101 - Suc i"
          and res: "wait_for_render env until (Suc i) p2 (evs @ [Sleep_1ms])
                = Some (p', (evs @ [Sleep_1ms]) @ replicate k Sleep_1ms)
              \<and> \<not> waiting_on_render p'
            \<or> wait_for_render env until (Suc i) p2 (evs @ [Sleep_1ms])
                = Some (p', (evs @ [Sleep_1ms]) @ replicate k Sleep_1ms @ [Warning ''Timed out waiting for rendering to finish''])
                   \<and> waiting_on_render p' \<and> 0 < k \<and> until < now_after env (Suc i + k - 1)"
          by blast
        have app: "(evs @ [Sleep_1ms]) @ replicate k Sleep_1ms = evs @ replicate (Suc k) Sleep_1ms"
          by simp
        from k \<open>i < 100\<close> have k': "Suc k \<le> 101 - i"
          by simp
        from res step app k' show ?thesis
          by (intro exI [of _ p'] exI [of _ "Suc k"]) auto
      qed
    qed
  qed
qed

text \<open>
  C9, as the code has it. With a live link and negotiated caps, \<^verbatim>\<open>setBuffer\<close> stores
  the frame and then blocks in the invocation of \<^verbatim>\<open>update\<close> (line 308), which has no
  timeout: if the thread of the item never runs the queued \<^verbatim>\<open>update ()\<close>, the call
  never returns. Once that invocation has returned, the only blocking left is the
  polling: provided the steady clock advances by at least 1 ms with each
  \<^verbatim>\<open>sleep_for (1 ms)\<close> and the render thread only ever clears
  \<^verbatim>\<open>waiting_on_render\<close>, the call sleeps \<open>k \<le> 101\<close> times for 1 ms and then either
  has seen the flag cleared, or logs the warning and returns with the flag still set;
  the latter only once the clock has passed the start plus 100 ms.
\<close>

theorem setBuffer_update_then_bounded_wait:
  assumes live: "qt_item w \<noteq> nullptr" "priv (item w) = Some p" "negotiated p"
  shows "(\<not> update_runs env \<longrightarrow> setBuffer env buffer w = None)
    \<and> (update_runs env
        \<and> (\<forall>i. now_start env + (int i + 1) * ms \<le> now_after env i)
        \<and> (\<forall>k q. waiting_on_render (render_thread env k q) \<longrightarrow> waiting_on_render q)
       \<longrightarrow> (\<exists>p' k. k \<le> 101 \<and>
            (setBuffer env buffer w
                = Some (w\<lparr>item := (item w)\<lparr>priv := Some p'\<rparr>\<rparr>,
                        InvokeUpdate # replicate k Sleep_1ms)
               \<and> \<not> waiting_on_render p'
             \<or> setBuffer env buffer w
                = Some (w\<lparr>item := (item w)\<lparr>priv := Some p'\<rparr>\<rparr>,
                        InvokeUpdate # replicate k Sleep_1ms
                          @ [Warning ''Timed out waiting for rendering to finish''])
               \<and> waiting_on_render p' \<and> 0 < k
               \<and> now_start env + 100 * ms < now_after env (k - 1))))"
proof (intro conjI impI)
  assume "\<not> update_runs env"
  with live show "setBuffer env buffer w = None"
    by (simp add: setBuffer_def Let_def)
next
  assume env: "update_runs env
        \<and> (\<forall>i. now_start env + (int i + 1) * ms \<le> now_after env i)
        \<and> (\<forall>k q. waiting_on_render (render_thread env k q) \<longrightarrow> waiting_on_render q)"
  then have runs: "update_runs env"
    and clock: "\<forall>i. now_start env + (int i + 1) * ms \<le> now_after env i"
    and mono: "\<forall>k q. waiting_on_render (render_thread env k q) \<longrightarrow> waiting_on_render q"
    by blast+
  define until where "until = now_start env + 100 * ms"
  define p1 where "p1 = p\<lparr>back_buffer := buffer, waiting_on_render := True\<rparr>"
  have deadline: "\<forall>j. 100 \<le> j \<longrightarrow> until < now_after env j"
  proof (intro allI impI)
    fix j :: nat
    assume "100 \<le> j"
    then have "now_start env + 100 * ms < now_start env + (int j + 1) * ms"
      by (simp add: ms_def)
    also from clock have "\<dots> \<le> now_after env j"
      by blast
    finally show "until < now_after env j"
      by (simp add: until_def)
  qed
  from wait_for_render_bounded [OF mono deadline, of 0 p1 "[InvokeUpdate]"]
  obtain p' k where k: "k \<le> 101"
    and res: "wait_for_render env until 0 p1 [InvokeUpdate]
          = Some (p', [InvokeUpdate] @ replicate k Sleep_1ms)
        \<and> \<not> waiting_on_render p'
      \<or> wait_for_render env until 0 p1 [InvokeUpdate]
          = Some (p', [InvokeUpdate] @ replicate k Sleep_1ms
                        @ [Warning ''Timed out waiting for rendering to finish''])
        \<and> waiting_on_render p' \<and> 0 < k \<and> until < now_after env (0 + k - 1)"
    by auto
  have unfold: "setBuffer env buffer w =
      (case wait_for_render env until 0 p1 [InvokeUpdate] of
         None \<Rightarrow> None
       | Some (p', evs) \<Rightarrow> Some (w\<lparr>item := (item w)\<lparr>priv := Some p'\<rparr>\<rparr>, evs))"
    using live runs by (simp add: setBuffer_def Let_def until_def p1_def)
  from res k show "\<exists>p' k. k \<le> 101 \<and>
            (setBuffer env buffer w
                = Some (w\<lparr>item := (item w)\<lparr>priv := Some p'\<rparr>\<rparr>,
                        InvokeUpdate # replicate k Sleep_1ms)
               \<and> \<not> waiting_on_render p'
             \<or> setBuffer env buffer w
                = Some (w\<lparr>item := (item w)\<lparr>priv := Some p'\<rparr>\<rparr>,
                        InvokeUpdate # replicate k Sleep_1ms
                          @ [Warning ''Timed out waiting for rendering to finish''])
               \<and> waiting_on_render p' \<and> 0 < k
               \<and> now_start env + 100 * ms < now_after env (k - 1))"
    unfolding unfold until_def
    by (intro exI [of _ p'] exI [of _ k]) auto
qed

lemma updatePaintNode_clears_flag:
  assumes "updatePaintNode center_rect \<lparr>priv = Some q, m_openGlContextInitialized = True\<rparr>
             b oldNode = Some (it, n)"
    and "priv it = Some p'"
  shows "\<not> waiting_on_render p'"
  using assms
  by (auto simp add: updatePaintNode_def Let_def split: if_splits option.splits)

lemma paint_only_clears: "waiting_on_render (paint q) \<Longrightarrow> waiting_on_render q"
  by (auto simp add: paint_def split: option.splits dest: updatePaintNode_clears_flag)

lemma sys_negotiated_live: "qt_item sys_negotiated \<noteq> nullptr"
  "priv (item sys_negotiated) = Some priv_negotiated" "negotiated priv_negotiated"
  by code_simp+

theorem setBuffer_update_then_bounded_wait_witness:
  "qt_item sys_negotiated = this_item
   \<and> priv (item sys_negotiated) = Some priv_negotiated
   \<and> negotiated priv_negotiated
   \<and> update_runs stalled_renderer
   \<and> (\<forall>i. now_start stalled_renderer + (int i + 1) * ms \<le> now_after stalled_renderer i)
   \<and> (\<exists>p' k. k \<le> 101 \<and>
        (setBuffer stalled_renderer (Some 7) sys_negotiated
            = Some (sys_negotiated\<lparr>item := (item sys_negotiated)\<lparr>priv := Some p'\<rparr>\<rparr>,
                    InvokeUpdate # replicate k Sleep_1ms)
           \<and> \<not> waiting_on_render p'
         \<or> setBuffer stalled_renderer (Some 7) sys_negotiated
            = Some (sys_negotiated\<lparr>item := (item sys_negotiated)\<lparr>priv := Some p'\<rparr>\<rparr>,
                    InvokeUpdate # replicate k Sleep_1ms
                      @ [Warning ''Timed out waiting for rendering to finish''])
           \<and> waiting_on_render p' \<and> 0 < k
           \<and> now_start stalled_renderer + 100 * ms < now_after stalled_renderer (k - 1)))
   \<and> setBuffer stalled_renderer (Some 7) sys_negotiated
       = Some (sys_frame, InvokeUpdate # replicate 101 Sleep_1ms
                 @ [Warning ''Timed out waiting for rendering to finish''])
   \<and> update_runs prompt_renderer
   \<and> (\<exists>p' k. k \<le> 101 \<and>
        (setBuffer prompt_renderer (Some 7) sys_negotiated
            = Some (sys_negotiated\<lparr>item := (item sys_negotiated)\<lparr>priv := Some p'\<rparr>\<rparr>,
                    InvokeUpdate # replicate k Sleep_1ms)
           \<and> \<not> waiting_on_render p'
         \<or> setBuffer prompt_renderer (Some 7) sys_negotiated
            = Some (sys_negotiated\<lparr>item := (item sys_negotiated)\<lparr>priv := Some p'\<rparr>\<rparr>,
                    InvokeUpdate # replicate k Sleep_1ms
                      @ [Warning ''Timed out waiting for rendering to finish''])
           \<and> waiting_on_render p' \<and> 0 < k
           \<and> now_start prompt_renderer + 100 * ms < now_after prompt_renderer (k - 1)))
   \<and> setBuffer prompt_renderer (Some 7) sys_negotiated
       = Some (sys_shown, [InvokeUpdate, Sleep_1ms])
   \<and> map_option front_buffer (priv (item sys_shown)) = Some (Some 7)
   \<and> \<not> update_runs stalled_item_thread
   \<and> setBuffer stalled_item_thread (Some 7) sys_negotiated = None"
proof -
  have live: "qt_item sys_negotiated = this_item"
    by code_simp
  have runs1: "update_runs stalled_renderer"
    by (simp add: stalled_renderer_def)
  have clock1: "\<forall>i. now_start stalled_renderer + (int i + 1) * ms \<le> now_after stalled_renderer i"
    by (simp add: stalled_renderer_def)
  have mono1: "\<forall>k q. waiting_on_render (render_thread stalled_renderer k q)
                 \<longrightarrow> waiting_on_render q"
    by (simp add: stalled_renderer_def)
  have runs2: "update_runs prompt_renderer"
    by (simp add: prompt_renderer_def)
  have clock2: "\<forall>i. now_start prompt_renderer + (int i + 1) * ms \<le> now_after prompt_renderer i"
    by (simp add: prompt_renderer_def)
  have mono2: "\<forall>k q. waiting_on_render (render_thread prompt_renderer k q)
                 \<longrightarrow> waiting_on_render q"
    by (simp add: prompt_renderer_def paint_only_clears)
  have runs3: "\<not> update_runs stalled_item_thread"
    by (simp add: stalled_item_thread_def)
  from setBuffer_update_then_bounded_wait [OF sys_negotiated_live, of stalled_renderer "Some 7"]
    runs1 clock1 mono1
  have one: "\<exists>p' k. k \<le> 101 \<and>
        (setBuffer stalled_renderer (Some 7) sys_negotiated
            = Some (sys_negotiated\<lparr>item := (item sys_negotiated)\<lparr>priv := Some p'\<rparr>\<rparr>,
                    InvokeUpdate # replicate k Sleep_1ms)
           \<and> \<not> waiting_on_render p'
         \<or> setBuffer stalled_renderer (Some 7) sys_negotiated
            = Some (sys_negotiated\<lparr>item := (item sys_negotiated)\<lparr>priv := Some p'\<rparr>\<rparr>,
                    InvokeUpdate # replicate k Sleep_1ms
                      @ [Warning ''Timed out waiting for rendering to finish''])
           \<and> waiting_on_render p' \<and> 0 < k
           \<and> now_start stalled_renderer + 100 * ms < now_after stalled_renderer (k - 1))"
    by blast
  from setBuffer_update_then_bounded_wait [OF sys_negotiated_live, of prompt_renderer "Some 7"]
    runs2 clock2 mono2
  have two: "\<exists>p' k. k \<le> 101 \<and>
        (setBuffer prompt_renderer (Some 7) sys_negotiated
            = Some (sys_negotiated\<lparr>item := (item sys_negotiated)\<lparr>priv := Some p'\<rparr>\<rparr>,
                    InvokeUpdate # replicate k Sleep_1ms)
           \<and> \<not> waiting_on_render p'
         \<or> setBuffer prompt_renderer (Some 7) sys_negotiated
            = Some (sys_negotiated\<lparr>item := (item sys_negotiated)\<lparr>priv := Some p'\<rparr>\<rparr>,
                    InvokeUpdate # replicate k Sleep_1ms
                      @ [Warning ''Timed out waiting for rendering to finish''])
           \<and> waiting_on_render p' \<and> 0 < k
           \<and> now_start prompt_renderer + 100 * ms < now_after prompt_renderer (k - 1))"
    by blast
  from setBuffer_update_then_bounded_wait [OF sys_negotiated_live, of stalled_item_thread "Some 7"]
    runs3
  have three: "setBuffer stalled_item_thread (Some 7) sys_negotiated = None"
    by blast
  have run1: "setBuffer stalled_renderer (Some 7) sys_negotiated
       = Some (sys_frame, InvokeUpdate # replicate 101 Sleep_1ms
                 @ [Warning ''Timed out waiting for rendering to finish''])"
    by code_simp
  have run2: "setBuffer prompt_renderer (Some 7) sys_negotiated
       = Some (sys_shown, [InvokeUpdate, Sleep_1ms])"
    "map_option front_buffer (priv (item sys_shown)) = Some (Some 7)"
    by code_simp+
  from live sys_negotiated_live(2,3) runs1 clock1 one run1 runs2 two run2 runs3 three
  show ?thesis
    by (intro conjI)
qed

text \<open>Against C9 as the spec words it: the render thread is left out of the picture and
  the clock advances by a millisecond per sleep, but the thread of the item never runs
  the queued update. The producer has stored its frame and is blocked at line 308 for
  good; the polling loop and its 100 ms bound are never reached.\<close>

theorem setBuffer_update_then_bounded_wait_counterexample:
  "qt_item sys_negotiated = this_item
   \<and> map_option negotiated (priv (item sys_negotiated)) = Some True
   \<and> (\<forall>i. now_start stalled_item_thread + (int i + 1) * ms \<le> now_after stalled_item_thread i)
   \<and> render_thread stalled_item_thread = (\<lambda>k q. q)
   \<and> \<not> update_runs stalled_item_thread
   \<and> setBuffer stalled_item_thread (Some 7) sys_negotiated = None"
proof -
  have a: "qt_item sys_negotiated = this_item"
    "map_option negotiated (priv (item sys_negotiated)) = Some True"
    by code_simp+
  have b: "\<forall>i. now_start stalled_item_thread + (int i + 1) * ms
                \<le> now_after stalled_item_thread i"
    "render_thread stalled_item_thread = (\<lambda>k q. q)"
    "\<not> update_runs stalled_item_thread"
    by (simp_all add: stalled_item_thread_def stalled_renderer_def)
  have c: "setBuffer stalled_item_thread (Some 7) sys_negotiated = None"
    by code_simp
  from a b c show ?thesis
    by (intro conjI)
qed

section \<open>Properties of \<^verbatim>\<open>updatePaintNode\<close>\<close>





lemma qreal_of_gint_of_int:
  assumes "- 2147483648 \<le> t" and "t \<le> 2147483647"
  shows "qreal_of_gint (word_of_int t) = of_int t"
proof -
  from assms have "signed_take_bit 31 t = t"
    by (intro signed_take_bit_int_eq_self) simp_all
  then have "sint (word_of_int t :: 32 word) = t"
    by (simp add: sint_sbintrunc')
  then show ?thesis
    by (simp add: qreal_of_gint_def)
qed

lemma gint_of_qreal_in_range:
  assumes "- 2147483648 \<le> towards_zero v" and "towards_zero v \<le> 2147483647"
  shows "gint_of_qreal v = Some (word_of_int (towards_zero v))"
  using assms by (simp add: gint_of_qreal_def Let_def)

lemma towards_zero_exact: "(of_int (towards_zero v) = v) = (v \<in> \<int>)"
proof
  assume "of_int (towards_zero v) = v"
  then have "v = of_int (towards_zero v)"
    by simp
  then show "v \<in> \<int>"
    by (metis Ints_of_int)
next
  assume "v \<in> \<int>"
  then show "of_int (towards_zero v) = v"
    by (simp add: towards_zero_def of_int_floor of_int_ceiling)
qed

text \<open>
  C5, as the code has it. Without forced aspect ratio, a paint with caps stored sets
  the node's rectangle to the bounding rectangle with each of its four components
  rounded towards zero to an integer (they pass through the \<^verbatim>\<open>gint\<close> fields of a
  \<^verbatim>\<open>GstVideoRectangle\<close>), provided the rounded values fit a \<^verbatim>\<open>gint\<close>. The node's
  rectangle is the bounding rectangle exactly when all four components are integers.
\<close>

theorem updatePaintNode_stretch_rect:
  assumes ready: "m_openGlContextInitialized it" "priv it = Some p" "caps p = Some c"
    and stretch: "\<not> force_aspect_ratio p"
    and range: "\<forall>v \<in> {qr_x b, qr_y b, qr_width b, qr_height b}.
                  - 2147483648 \<le> towards_zero v \<and> towards_zero v \<le> 2147483647"
  shows "\<exists>it' n. updatePaintNode center_rect it b oldNode = Some (it', Some n)
           \<and> node_rect n = \<lparr>qr_x = of_int (towards_zero (qr_x b)),
                             qr_y = of_int (towards_zero (qr_y b)),
                             qr_width = of_int (towards_zero (qr_width b)),
                             qr_height = of_int (towards_zero (qr_height b))\<rparr>
           \<and> (node_rect n = b) =
               (qr_x b \<in> \<int> \<and> qr_y b \<in> \<int> \<and> qr_width b \<in> \<int> \<and> qr_height b \<in> \<int>)"
proof -
  define r where "r = \<lparr>vr_x = word_of_int (towards_zero (qr_x b)),
                        vr_y = word_of_int (towards_zero (qr_y b)),
                        vr_w = word_of_int (towards_zero (qr_width b)),
                        vr_h = word_of_int (towards_zero (qr_height b))\<rparr>"
  define q where "q = \<lparr>qr_x = of_int (towards_zero (qr_x b)),
                        qr_y = of_int (towards_zero (qr_y b)),
                        qr_width = of_int (towards_zero (qr_width b)),
                        qr_height = (of_int (towards_zero (qr_height b)) :: qreal)\<rparr>"
  from range have rx: "- 2147483648 \<le> towards_zero (qr_x b)" "towards_zero (qr_x b) \<le> 2147483647"
    and ry: "- 2147483648 \<le> towards_zero (qr_y b)" "towards_zero (qr_y b) \<le> 2147483647"
    and rw: "- 2147483648 \<le> towards_zero (qr_width b)" "towards_zero (qr_width b) \<le> 2147483647"
    and rh: "- 2147483648 \<le> towards_zero (qr_height b)" "towards_zero (qr_height b) \<le> 2147483647"
    by simp_all
  have dst: "rect_of_bounding b = Some r"
    by (simp add: rect_of_bounding_def r_def gint_of_qreal_in_range rx ry rw rh)
  have conv: "qrectf_of_rect r = q"
    by (simp add: qrectf_of_rect_def r_def q_def qreal_of_gint_of_int rx ry rw rh)
  have exact: "(q = b) = (qr_x b \<in> \<int> \<and> qr_y b \<in> \<int> \<and> qr_width b \<in> \<int> \<and> qr_height b \<in> \<int>)"
    by (cases b) (simp add: q_def towards_zero_exact)
  define n where "n = (case oldNode of None \<Rightarrow> new_QSGSimpleTextureNode | Some n \<Rightarrow> n)
      \<lparr>tex_caps := caps p, tex_buffer := back_buffer p, dirty_material := True,
        node_rect := q\<rparr>"
  define it' where "it' = it\<lparr>priv := Some (p\<lparr>front_buffer := back_buffer p,
      back_buffer := front_buffer p, waiting_on_render := False\<rparr>)\<rparr>"
  have "updatePaintNode center_rect it b oldNode = Some (it', Some n)"
    using ready stretch dst conv
    by (simp add: updatePaintNode_def Let_def n_def it'_def)
  moreover have "node_rect n = q"
    by (simp add: n_def)
  ultimately show ?thesis
    using exact unfolding q_def by (intro exI [of _ it'] exI [of _ n]) simp
qed

lemma item_sys_frame: "m_openGlContextInitialized (item sys_frame)"
  "priv (item sys_frame) = Some priv_frame" "caps priv_frame = Some caps_pal"
  "\<not> force_aspect_ratio priv_frame"
  by code_simp+

theorem updatePaintNode_stretch_rect_witness:
  "m_openGlContextInitialized (item sys_frame)
   \<and> priv (item sys_frame) = Some priv_frame
   \<and> caps priv_frame = Some caps_pal
   \<and> \<not> force_aspect_ratio priv_frame
   \<and> (\<exists>it' n. updatePaintNode center_rect_unused (item sys_frame) bounding_800x600 None
                  = Some (it', Some n)
        \<and> node_rect n = bounding_800x600)
   \<and> (\<exists>it' n. updatePaintNode center_rect_unused (item sys_frame) bounding_fractional None
                  = Some (it', Some n)
        \<and> node_rect n = \<lparr>qr_x = 0, qr_y = 0, qr_width = 100, qr_height = 50\<rparr>)"
proof -
  have t: "towards_zero 0 = 0" "towards_zero 800 = 800" "towards_zero 600 = 600"
    "towards_zero (201 / 2) = 100" "towards_zero 50 = 50"
    by code_simp+
  from updatePaintNode_stretch_rect [OF item_sys_frame, of bounding_800x600
      center_rect_unused None] t
  have one: "\<exists>it' n. updatePaintNode center_rect_unused (item sys_frame) bounding_800x600 None
                  = Some (it', Some n) \<and> node_rect n = bounding_800x600"
    by (auto simp add: bounding_800x600_def)
  from updatePaintNode_stretch_rect [OF item_sys_frame, of bounding_fractional
      center_rect_unused None] t
  have two: "\<exists>it' n. updatePaintNode center_rect_unused (item sys_frame) bounding_fractional None
                  = Some (it', Some n)
        \<and> node_rect n = \<lparr>qr_x = 0, qr_y = 0, qr_width = 100, qr_height = 50\<rparr>"
    by (auto simp add: bounding_fractional_def)
  from item_sys_frame one two show ?thesis
    by (intro conjI)
qed

text \<open>Against C5 as the spec words it: a bounding rectangle 100.5 wide gives a node
  rectangle 100 wide.\<close>

theorem updatePaintNode_stretch_rect_counterexample:
  "m_openGlContextInitialized (item sys_frame)
   \<and> map_option force_aspect_ratio (priv (item sys_frame)) = Some False
   \<and> map_option (map_option node_rect \<circ> snd)
        (updatePaintNode center_rect_unused (item sys_frame) bounding_fractional None)
       = Some (Some \<lparr>qr_x = 0, qr_y = 0, qr_width = 100, qr_height = 50\<rparr>)
   \<and> map_option (map_option node_rect \<circ> snd)
        (updatePaintNode center_rect_unused (item sys_frame) bounding_fractional None)
       \<noteq> Some (Some bounding_fractional)"
proof -
  have a: "m_openGlContextInitialized (item sys_frame)"
    "map_option force_aspect_ratio (priv (item sys_frame)) = Some False"
    by code_simp+
  have b: "map_option (map_option node_rect \<circ> snd)
        (updatePaintNode center_rect_unused (item sys_frame) bounding_fractional None)
       = Some (Some \<lparr>qr_x = 0, qr_y = 0, qr_width = 100, qr_height = 50\<rparr>)"
    by code_simp
  have c: "\<lparr>qr_x = 0, qr_y = 0, qr_width = 100, qr_height = 50\<rparr> \<noteq> bounding_fractional"
    by (simp add: bounding_fractional_def)
  have d: "map_option (map_option node_rect \<circ> snd)
        (updatePaintNode center_rect_unused (item sys_frame) bounding_fractional None)
       \<noteq> Some (Some bounding_fractional)"
    unfolding b using c by simp
  from a b d show ?thesis
    by (intro conjI)
qed

section \<open>The proxy after \<^verbatim>\<open>invalidateRef\<close>\<close>

lemma invalidateRef_null: "qt_item (invalidateRef w) = nullptr"
  by (simp add: invalidateRef_def)

lemma proxy_call_null_link:
  assumes "qt_item w = nullptr"
  shows "proxy_call lib gl op w = Some (w, failure_value op, [])"
proof (cases op)
  case (SetBuffer env buffer)
  with assms show ?thesis
    by (simp add: setBuffer_def)
next
  case (SetCaps c)
  with assms show ?thesis
    by (cases c) (auto simp add: setCaps_def)
next
  case InitWinSys
  with assms show ?thesis
    by (simp add: initWinSys_def)
next
  case GetQtContext
  with assms show ?thesis
    by (simp add: getQtContext_def)
next
  case GetContext
  with assms show ?thesis
    by (simp add: getContext_def)
next
  case GetDisplay
  with assms show ?thesis
    by (simp add: getDisplay_def)
next
  case (SetDAR num den)
  with assms show ?thesis
    by (simp add: setDAR_def)
next
  case GetDAR
  with assms show ?thesis
    by (simp add: getDAR_def)
next
  case (SetForceAspectRatio far)
  with assms show ?thesis
    by (simp add: setForceAspectRatio_def)
next
  case GetForceAspectRatio
  with assms show ?thesis
    by (simp add: getForceAspectRatio_def)
qed

lemma proxy_calls_null_link:
  "qt_item w = nullptr \<Longrightarrow>
     proxy_calls lib gl ops w = Some (w, map (\<lambda>op. (failure_value op, [])) ops)"
  by (induction ops) (simp_all add: proxy_call_null_link)

text \<open>
  C8. After \<^verbatim>\<open>invalidateRef\<close> the link is null, and every sequence of calls of the
  proxy's methods (\<^verbatim>\<open>setBuffer\<close>, \<^verbatim>\<open>setCaps\<close>, \<^verbatim>\<open>initWinSys\<close>, the three pointer
  getters, \<^verbatim>\<open>setDAR\<close>, \<^verbatim>\<open>getDAR\<close>, \<^verbatim>\<open>setForceAspectRatio\<close>,
  \<^verbatim>\<open>getForceAspectRatio\<close>) returns: each call gives its failure value (nothing,
  \<^verbatim>\<open>FALSE\<close>, \<^verbatim>\<open>NULL\<close>, out-pointers unwritten) with no event at all (no update
  invoked, no sleep, no log line), and the system stays what \<^verbatim>\<open>invalidateRef\<close> left.
\<close>

theorem proxy_calls_after_invalidateRef:
  "qt_item (invalidateRef w) = nullptr
   \<and> proxy_calls lib gl ops (invalidateRef w)
       = Some (invalidateRef w, map (\<lambda>op. (failure_value op, [])) ops)"
  by (simp add: invalidateRef_null proxy_calls_null_link)

theorem proxy_calls_after_invalidateRef_witness:
  "qt_item sys_frame = this_item
   \<and> getDisplay sys_frame = Some 1
   \<and> qt_item (invalidateRef sys_frame) = nullptr
   \<and> proxy_calls gst gl_always_ok
        [SetBuffer stalled_renderer (Some 8), SetCaps (Some caps_pal), InitWinSys,
         GetQtContext, GetContext, GetDisplay, SetDAR 4 3, GetDAR,
         SetForceAspectRatio True, GetForceAspectRatio]
        (invalidateRef sys_frame)
       = Some (invalidateRef sys_frame,
           [(Void, []), (Bool False, []), (Bool False, []),
            (Pointer None, []), (Pointer None, []), (Pointer None, []), (Void, []),
            (Written None, []), (Void, []), (Bool False, [])])"
proof -
  have a: "qt_item sys_frame = this_item" "getDisplay sys_frame = Some 1"
    by code_simp+
  from a proxy_calls_after_invalidateRef [of sys_frame gst gl_always_ok
    "[SetBuffer stalled_renderer (Some 8), SetCaps (Some caps_pal), InitWinSys,
      GetQtContext, GetContext, GetDisplay, SetDAR 4 3, GetDAR,
      SetForceAspectRatio True, GetForceAspectRatio]"]
  show ?thesis
    by simp
qed

end
